theory Spec2Isabelle
  imports Main
begin

section \<open>JavaScript values\<close>

text \<open>
  The widget (\<^verbatim>\<open>src/galliun.js\<close>) reads message payloads, options and error objects
  whose shape is not fixed by the code, so they are modelled as untyped JavaScript
  values. Numbers are integers here: no operation of the code computes with them, they
  are only tested for truthiness and copied.
\<close>

datatype jsval =
    JUndefined
  | JNull
  | JBool bool
  | JNum int
  | JStr string
  | JObj "(string \<times> jsval) list"

datatype exn = TypeError | CallbackThrew

text \<open>Truthiness, as tested by \<^verbatim>\<open>!v\<close>, \<^verbatim>\<open>a || b\<close> and \<^verbatim>\<open>if (v)\<close>.\<close>

fun truthy :: "jsval \<Rightarrow> bool" where
  "truthy JUndefined = False"
| "truthy JNull = False"
| "truthy (JBool b) = b"
| "truthy (JNum n) = (n \<noteq> 0)"
| "truthy (JStr s) = (s \<noteq> [])"
| "truthy (JObj kvs) = True"

text \<open>
  Reading a property of \<^verbatim>\<open>undefined\<close> or \<^verbatim>\<open>null\<close> throws a TypeError; every
  operation below tests \<open>nullish\<close> before it reads. On any other value the read yields
  the property, or \<^verbatim>\<open>undefined\<close> when there is none (none of the property names the
  code reads exists on the prototypes of strings, numbers or booleans).
\<close>

fun nullish :: "jsval \<Rightarrow> bool" where
  "nullish JUndefined = True"
| "nullish JNull = True"
| "nullish v = False"

fun member :: "jsval \<Rightarrow> string \<Rightarrow> jsval" where
  "member (JObj kvs) k = (case map_of kvs k of None \<Rightarrow> JUndefined | Some v \<Rightarrow> v)"
| "member v k = JUndefined"

text \<open>\<^verbatim>\<open>a || b\<close> on values.\<close>

definition js_or :: "jsval \<Rightarrow> jsval \<Rightarrow> jsval" where
  "js_or a b = (if truthy a then a else b)"

section \<open>Objects of the page\<close>

text \<open>
  A callback supplied by the host page is opaque: all the widget can observe is that
  the call returns or throws. An absent callback is \<open>None\<close>. A callback is taken not
  to call back into the widget while it runs.
\<close>

datatype behaviour = Returns | Throws

record callback_set =
  onSuccess :: "behaviour option"
  onError :: "behaviour option"
  onClose :: "behaviour option"
  onLoaded :: "behaviour option"

text \<open>
  The argument of \<^verbatim>\<open>mount\<close>. The options for the text and the style of the button
  are not modelled.
\<close>

record options =
  opt_productId :: jsval
  opt_onSuccess :: "behaviour option"
  opt_onError :: "behaviour option"
  opt_onClose :: "behaviour option"
  opt_onLoaded :: "behaviour option"

text \<open>
  A \<^verbatim>\<open>GalliunButton\<close> object. \<open>popup\<close> is a reference to a window handle
  (\<open>None\<close> is \<^verbatim>\<open>null\<close>); \<open>productId\<close> is \<^verbatim>\<open>undefined\<close> until \<^verbatim>\<open>mount\<close>
  stores it. The fields \<^verbatim>\<open>registerFeature\<close> and \<^verbatim>\<open>unregisterFeature\<close> are the bound
  methods of the one client and are called directly below.
\<close>

record feature =
  elementId :: string
  baseUrl :: string
  popup :: "nat option"
  callbacks :: callback_set
  productId :: jsval

text \<open>
  The button element rendered by \<^verbatim>\<open>mount\<close>, as far as its click handler goes: the
  Feature the handler belongs to, and the \<^verbatim>\<open>productId\<close> of the options object the
  handler closes over. The handler reads \<^verbatim>\<open>options.productId\<close> when the click comes,
  and the object is the host page's, which may assign to it in the meantime. The text and
  the style of the element are not modelled.
\<close>

record button =
  click_feature :: nat
  click_productId :: jsval

record message_event =
  ev_origin :: string
  ev_data :: jsval

text \<open>What the host page observes: a callback of Feature \<open>fid\<close> called with its argument.\<close>

datatype call = OnLoaded | OnSuccess jsval | OnError jsval | OnClose

text \<open>
  The page: the \<^verbatim>\<open>GalliunClient\<close> (\<open>client_baseUrl\<close>, \<open>popupOrigin\<close>, \<open>listening\<close>
  for its message listener, \<open>activeFeatures\<close> for the Set \<^verbatim>\<open>_activeFeatures\<close> in
  insertion order), the heap of button objects, the DOM containers by id (\<open>None\<close>: no
  such element; \<open>Some None\<close>: an element without a rendered button), the \<open>closed\<close> flag
  of every window handle, the running interval timers with the Feature their callback
  closes over, the calls of \<^verbatim>\<open>window.open\<close> made so far (base URL and product id of
  the target URL), the callback calls and \<^verbatim>\<open>console.error\<close> lines so far, and the
  clock read by \<^verbatim>\<open>Date.now()\<close>.
\<close>

record world =
  client_baseUrl :: string
  popupOrigin :: string
  listening :: bool
  activeFeatures :: "nat list"
  features :: "nat \<Rightarrow> feature"
  nextFeature :: nat
  document :: "string \<Rightarrow> button option option"
  closed :: "nat \<Rightarrow> bool"
  timers :: "(nat \<times> nat) list"
  nextTimer :: nat
  opened :: "(string \<times> jsval) list"
  calls :: "(nat \<times> call) list"
  console :: "string list"
  now :: int

section \<open>Control flow\<close>

text \<open>
  Every operation returns the exception it threw, if any, with the state it left:
  JavaScript does not roll back the mutations made before a throw.
\<close>

type_synonym outcome = "exn option \<times> world"

definition andThen :: "outcome \<Rightarrow> (world \<Rightarrow> outcome) \<Rightarrow> outcome" where
  "andThen r k = (case r of (None, w) \<Rightarrow> k w | (Some e, w) \<Rightarrow> (Some e, w))"

definition invoke :: "world \<Rightarrow> nat \<Rightarrow> behaviour \<Rightarrow> call \<Rightarrow> outcome" where
  "invoke w fid cb c =
     ((case cb of Returns \<Rightarrow> None | Throws \<Rightarrow> Some CallbackThrew),
      w\<lparr>calls := calls w @ [(fid, c)]\<rparr>)"

text \<open>\<^verbatim>\<open>cb?.(arg)\<close> and \<^verbatim>\<open>if (cb) cb(arg)\<close>.\<close>

definition invoke_opt :: "world \<Rightarrow> nat \<Rightarrow> behaviour option \<Rightarrow> call \<Rightarrow> outcome" where
  "invoke_opt w fid cbo c =
     (case cbo of None \<Rightarrow> (None, w) | Some cb \<Rightarrow> invoke w fid cb c)"

text \<open>\<^verbatim>\<open>handle.close()\<close>.\<close>

definition popup_close :: "world \<Rightarrow> nat \<Rightarrow> world" where
  "popup_close w h = w\<lparr>closed := (closed w)(h := True)\<rparr>"

text \<open>\<^verbatim>\<open>if (this.popup) { this.popup.close(); }\<close>\<close>

definition close_if_popup :: "world \<Rightarrow> nat \<Rightarrow> world" where
  "close_if_popup w fid =
     (case popup (features w fid) of None \<Rightarrow> w | Some h \<Rightarrow> popup_close w h)"

text \<open>\<^verbatim>\<open>if (this.popup && !this.popup.closed) { this.popup.close(); }\<close>\<close>

definition close_if_open :: "world \<Rightarrow> nat \<Rightarrow> world" where
  "close_if_open w fid =
     (case popup (features w fid) of
        None \<Rightarrow> w
      | Some h \<Rightarrow> if \<not> closed w h then popup_close w h else w)"

section \<open>GalliunClient: the registry\<close>

text \<open>\<^verbatim>\<open>Set.prototype.add\<close> and \<^verbatim>\<open>Set.prototype.delete\<close> on the ordered Set.\<close>

definition set_add :: "nat \<Rightarrow> nat list \<Rightarrow> nat list" where
  "set_add x xs = (if x \<in> set xs then xs else xs @ [x])"

definition set_delete :: "nat \<Rightarrow> nat list \<Rightarrow> nat list" where
  "set_delete x xs = filter (\<lambda>y. y \<noteq> x) xs"

definition registerFeature :: "world \<Rightarrow> nat \<Rightarrow> world" where
  "registerFeature w fid = w\<lparr>activeFeatures := set_add fid (activeFeatures w)\<rparr>"

definition unregisterFeature :: "world \<Rightarrow> nat \<Rightarrow> world" where
  "unregisterFeature w fid = w\<lparr>activeFeatures := set_delete fid (activeFeatures w)\<rparr>"

section \<open>GalliunButton\<close>

text \<open>The object built by \<^verbatim>\<open>handleError\<close> (lines 213-222).\<close>

definition standardError :: "jsval \<Rightarrow> jsval \<Rightarrow> int \<Rightarrow> jsval" where
  "standardError error pid t =
     JObj [(''type'', js_or (member error ''type'') (JStr ''api_error'')),
           (''code'', member error ''code''),
           (''message'', js_or (member error ''message'') (member error ''error'')),
           (''param'', member error ''param''),
           (''metadata'', JObj [(''productId'', pid), (''timestamp'', JNum t)])]"

definition handleError :: "world \<Rightarrow> nat \<Rightarrow> jsval \<Rightarrow> outcome" where
  "handleError w fid error =
     andThen
       (case onError (callbacks (features w fid)) of
          None \<Rightarrow> (None, w)
        | Some cb \<Rightarrow>
            if nullish error then (Some TypeError, w)
            else invoke w fid cb
                   (OnError (standardError error (productId (features w fid)) (now w))))
       (\<lambda>w'. (None, close_if_popup w' fid))"

text \<open>The object built in the \<^verbatim>\<open>GALLIUN_SUCCESS\<close> case (lines 179-190).\<close>

definition successResult :: "jsval \<Rightarrow> jsval" where
  "successResult d =
     JObj [(''id'', member d ''transactionId''),
           (''status'', JStr ''succeeded''),
           (''amount'', member d ''amount''),
           (''currency'', member d ''coinType''),
           (''created'', member d ''timestamp''),
           (''metadata'', JObj [(''productId'', member d ''productId''),
                                (''billId'', member d ''billId'')]),
           (''product'', member d ''product'')]"

text \<open>
  \<^verbatim>\<open>GalliunButton.handleMessage\<close> (lines 169-209). The destructuring of
  \<^verbatim>\<open>event.data\<close> throws on \<^verbatim>\<open>null\<close> and \<^verbatim>\<open>undefined\<close>; the \<^verbatim>\<open>switch\<close> compares with
  \<^verbatim>\<open>===\<close>, so only the four strings match.
\<close>

definition Button_handleMessage :: "world \<Rightarrow> nat \<Rightarrow> message_event \<Rightarrow> outcome" where
  "Button_handleMessage w fid event =
     (if nullish (ev_data event) then (Some TypeError, w)
      else
        let ty = member (ev_data event) ''type'';
            d = member (ev_data event) ''data''
        in
          if ty = JStr ''GALLIUN_LOADED'' then
            invoke_opt w fid (onLoaded (callbacks (features w fid))) OnLoaded
          else if ty = JStr ''GALLIUN_SUCCESS'' then
            andThen
              (case onSuccess (callbacks (features w fid)) of
                 None \<Rightarrow> (None, w)
               | Some cb \<Rightarrow>
                   if nullish d then (Some TypeError, w)
                   else invoke w fid cb (OnSuccess (successResult d)))
              (\<lambda>w'. (None, close_if_popup w' fid))
          else if ty = JStr ''GALLIUN_ERROR'' then
            handleError w fid d
          else if ty = JStr ''GALLIUN_CLOSE'' then
            invoke_opt (close_if_popup w fid) fid (onClose (callbacks (features w fid))) OnClose
          else (None, w))"

text \<open>
  \<^verbatim>\<open>GalliunButton.openPopup\<close> (lines 230-273). The answer of \<^verbatim>\<open>window.open\<close> is the
  browser's: \<open>None\<close> for \<^verbatim>\<open>null\<close>, or a handle with the \<open>closed\<close> flag it has on
  return. The window geometry is not modelled, and \<^verbatim>\<open>encodeURIComponent\<close> is taken
  to succeed (it throws only on a string with a lone surrogate).
\<close>

definition popup_blocked :: jsval where
  "popup_blocked =
     JObj [(''type'', JStr ''popup_error''),
           (''code'', JStr ''popup_blocked''),
           (''message'', JStr ''Payment popup was blocked. Please allow popups for this site.'')]"

definition window_open :: "world \<Rightarrow> nat \<Rightarrow> jsval \<Rightarrow> (nat \<times> bool) option \<Rightarrow> world" where
  "window_open w fid pid wo =
     w\<lparr>opened := opened w @ [(baseUrl (features w fid), pid)],
       closed := (case wo of None \<Rightarrow> closed w | Some (h, c) \<Rightarrow> (closed w)(h := c)),
       features := (features w)(fid := (features w fid)\<lparr>popup := map_option fst wo\<rparr>)\<rparr>"

definition is_blocked :: "world \<Rightarrow> nat \<Rightarrow> bool" where
  "is_blocked w fid =
     (case popup (features w fid) of None \<Rightarrow> True | Some h \<Rightarrow> closed w h)"

definition setInterval :: "world \<Rightarrow> nat \<Rightarrow> world" where
  "setInterval w fid =
     w\<lparr>timers := timers w @ [(nextTimer w, fid)], nextTimer := Suc (nextTimer w)\<rparr>"

definition clearInterval :: "world \<Rightarrow> nat \<Rightarrow> world" where
  "clearInterval w tid = w\<lparr>timers := filter (\<lambda>p. fst p \<noteq> tid) (timers w)\<rparr>"

definition openPopup :: "world \<Rightarrow> nat \<Rightarrow> jsval \<Rightarrow> (nat \<times> bool) option \<Rightarrow> outcome" where
  "openPopup w fid pid wo =
     (let w1 = close_if_open w fid;
          w2 = window_open w1 fid pid wo
      in if is_blocked w2 fid then handleError w2 fid popup_blocked
         else (None, setInterval w2 fid))"

text \<open>
  One firing of the interval callback of \<^verbatim>\<open>openPopup\<close> (lines 267-272). It reads
  \<^verbatim>\<open>this.popup\<close>, the Feature's current handle, not the handle opened with the timer.
  A cleared timer does not fire.
\<close>

definition pollTick :: "world \<Rightarrow> nat \<Rightarrow> outcome" where
  "pollTick w tid =
     (case map_of (timers w) tid of
        None \<Rightarrow> (None, w)
      | Some fid \<Rightarrow>
          if is_blocked w fid then
            invoke_opt (clearInterval w tid) fid (onClose (callbacks (features w fid))) OnClose
          else (None, w))"

text \<open>\<^verbatim>\<open>GalliunButton.destroy\<close> (lines 275-280).\<close>

definition Button_destroy :: "world \<Rightarrow> nat \<Rightarrow> outcome" where
  "Button_destroy w fid = (None, unregisterFeature (close_if_open w fid) fid)"

text \<open>
  \<^verbatim>\<open>GalliunButton.mount\<close> (lines 80-167), without the text and the styles of the
  button.
\<close>

definition not_found :: "string \<Rightarrow> string" where
  "not_found eid = ''Element with id \"'' @ eid @ ''\" not found''"

definition parameter_missing :: jsval where
  "parameter_missing =
     JObj [(''type'', JStr ''validation_error''),
           (''code'', JStr ''parameter_missing''),
           (''message'', JStr ''Product ID is required''),
           (''param'', JStr ''productId'')]"

definition store_callbacks :: "world \<Rightarrow> nat \<Rightarrow> options \<Rightarrow> world" where
  "store_callbacks w fid opts =
     w\<lparr>features := (features w)(fid := (features w fid)
         \<lparr>callbacks := \<lparr>onSuccess = opt_onSuccess opts, onError = opt_onError opts,
                        onClose = opt_onClose opts, onLoaded = opt_onLoaded opts\<rparr>\<rparr>)\<rparr>"

definition render :: "world \<Rightarrow> nat \<Rightarrow> options \<Rightarrow> world" where
  "render w fid opts =
     w\<lparr>features := (features w)(fid := (features w fid)\<lparr>productId := opt_productId opts\<rparr>),
       document := (document w)(elementId (features w fid) \<mapsto>
         Some \<lparr>click_feature = fid, click_productId = opt_productId opts\<rparr>)\<rparr>"

definition mount :: "world \<Rightarrow> nat \<Rightarrow> options \<Rightarrow> outcome" where
  "mount w fid opts =
     (case document w (elementId (features w fid)) of
        None \<Rightarrow> (None, w\<lparr>console := console w @ [not_found (elementId (features w fid))]\<rparr>)
      | Some container \<Rightarrow>
          let w1 = registerFeature (store_callbacks w fid opts) fid
          in if \<not> truthy (opt_productId opts) then handleError w1 fid parameter_missing
             else (None, render w1 fid opts))"

section \<open>GalliunClient: dispatch and teardown\<close>

text \<open>
  The \<^verbatim>\<open>forEach\<close> of \<^verbatim>\<open>GalliunClient.handleMessage\<close> (lines 52-56): the Features are
  visited in insertion order, and a throw leaves the loop.
\<close>

fun dispatch :: "world \<Rightarrow> nat list \<Rightarrow> message_event \<Rightarrow> outcome" where
  "dispatch w [] event = (None, w)"
| "dispatch w (fid # fids) event =
     andThen (Button_handleMessage w fid event) (\<lambda>w'. dispatch w' fids event)"

definition Client_handleMessage :: "world \<Rightarrow> message_event \<Rightarrow> outcome" where
  "Client_handleMessage w event =
     (if ev_origin event \<noteq> popupOrigin w then (None, w)
      else dispatch w (activeFeatures w) event)"

text \<open>\<^verbatim>\<open>GalliunClient.destroy\<close> (lines 59-67).\<close>

fun destroy_all :: "world \<Rightarrow> nat list \<Rightarrow> outcome" where
  "destroy_all w [] = (None, w)"
| "destroy_all w (fid # fids) =
     andThen (Button_destroy w fid) (\<lambda>w'. destroy_all w' fids)"

definition Client_destroy :: "world \<Rightarrow> outcome" where
  "Client_destroy w =
     andThen (destroy_all (w\<lparr>listening := False\<rparr>) (activeFeatures w))
       (\<lambda>w'. (None, w'\<lparr>activeFeatures := []\<rparr>))"

text \<open>
  The constructors. \<^verbatim>\<open>config.baseUrl\<close> is a string or absent (the empty string is
  falsy and gives the default too). \<^verbatim>\<open>new URL(baseUrl).origin\<close> is the browser's
  parser, a parameter here: it throws on a string that is no URL. The page starts with
  the containers it has, no window and no timer.
\<close>

definition new_button :: "string \<Rightarrow> string \<Rightarrow> feature" where
  "new_button eid base =
     \<lparr>elementId = eid, baseUrl = base, popup = None,
      callbacks = \<lparr>onSuccess = None, onError = None, onClose = None, onLoaded = None\<rparr>,
      productId = JUndefined\<rparr>"

definition new_client ::
  "string \<Rightarrow> string \<Rightarrow> (string \<Rightarrow> button option option) \<Rightarrow> world" where
  "new_client base orig containers =
     \<lparr>client_baseUrl = base, popupOrigin = orig, listening = True, activeFeatures = [],
      features = (\<lambda>fid. new_button [] base), nextFeature = 0, document = containers,
      closed = (\<lambda>h. False), timers = [], nextTimer = 0, opened = [], calls = [],
      console = [], now = 0\<rparr>"

definition createClient ::
  "(string \<Rightarrow> string option) \<Rightarrow> string option \<Rightarrow> (string \<Rightarrow> button option option)
     \<Rightarrow> exn + world" where
  "createClient url_origin config_baseUrl containers =
     (let base = (case config_baseUrl of
                    None \<Rightarrow> ''http://localhost:5173''
                  | Some s \<Rightarrow> if s \<noteq> [] then s else ''http://localhost:5173'')
      in case url_origin base of
           None \<Rightarrow> Inl TypeError
         | Some orig \<Rightarrow> Inr (new_client base orig containers))"

text \<open>\<^verbatim>\<open>elements.createButton\<close>: a new button object, at the next free address.\<close>

definition createButton :: "world \<Rightarrow> string \<Rightarrow> world" where
  "createButton w eid =
     w\<lparr>features := (features w)(nextFeature w := new_button eid (client_baseUrl w)),
       nextFeature := Suc (nextFeature w)\<rparr>"

section \<open>Events of the page\<close>

text \<open>
  What can happen to the page: a message event on the window, a click on the button
  rendered in a container (with the browser's answer to \<^verbatim>\<open>window.open\<close>), an interval
  timer firing, the user closing a popup window, the clock advancing, and the host page
  calling \<^verbatim>\<open>createButton\<close>, \<^verbatim>\<open>mount\<close> or \<^verbatim>\<open>destroy\<close>, or assigning
  \<^verbatim>\<open>options.productId\<close> of the options object it mounted the button of a container
  with. An exception that reaches the event loop is reported by the browser and the
  page goes on.
\<close>

text \<open>
  The assignment to \<^verbatim>\<open>options.productId\<close>: the click handler of the rendered button
  reads the new value from then on.
\<close>

definition assign_productId :: "world \<Rightarrow> string \<Rightarrow> jsval \<Rightarrow> world" where
  "assign_productId w eid pid =
     (case document w eid of
        Some (Some b) \<Rightarrow> w\<lparr>document := (document w)(eid \<mapsto> Some (b\<lparr>click_productId := pid\<rparr>))\<rparr>
      | _ \<Rightarrow> w)"

datatype event =
    Message message_event
  | Click string "(nat \<times> bool) option"
  | Tick nat
  | UserClose nat
  | Clock int
  | NewButton string
  | AssignProductId string jsval
  | Mount nat options
  | Destroy nat
  | DestroyClient

fun step :: "world \<Rightarrow> event \<Rightarrow> world" where
  "step w (Message m) = (if listening w then snd (Client_handleMessage w m) else w)"
| "step w (Click eid wo) =
     (case document w eid of
        Some (Some b) \<Rightarrow> snd (openPopup w (click_feature b) (click_productId b) wo)
      | _ \<Rightarrow> w)"
| "step w (Tick tid) = snd (pollTick w tid)"
| "step w (UserClose h) = popup_close w h"
| "step w (Clock t) = w\<lparr>now := t\<rparr>"
| "step w (NewButton eid) = createButton w eid"
| "step w (AssignProductId eid pid) = assign_productId w eid pid"
| "step w (Mount fid opts) = snd (mount w fid opts)"
| "step w (Destroy fid) = snd (Button_destroy w fid)"
| "step w DestroyClient = snd (Client_destroy w)"

fun run :: "world \<Rightarrow> event list \<Rightarrow> world" where
  "run w [] = w"
| "run w (e # es) = run (step w e) es"

section \<open>Notions used to state the properties\<close>

text \<open>A message event whose origin is not the trusted one.\<close>

definition cross_origin :: "string \<Rightarrow> event \<Rightarrow> bool" where
  "cross_origin trusted e = (case e of Message m \<Rightarrow> ev_origin m \<noteq> trusted | _ \<Rightarrow> False)"

text \<open>The terminal callbacks, and how many of them a Feature has received.\<close>

fun is_terminal :: "call \<Rightarrow> bool" where
  "is_terminal (OnSuccess r) = True"
| "is_terminal (OnError e) = True"
| "is_terminal c = False"

definition terminal_calls :: "nat \<Rightarrow> (nat \<times> call) list \<Rightarrow> nat" where
  "terminal_calls fid cs = length (filter (\<lambda>p. fst p = fid \<and> is_terminal (snd p)) cs)"

text \<open>
  The events after which a Feature may have received a terminal callback: a trusted
  message of type \<^verbatim>\<open>GALLIUN_SUCCESS\<close> or \<^verbatim>\<open>GALLIUN_ERROR\<close>, a click on the Feature's
  rendered button that the browser answers with no window or a closed one, and a
  \<^verbatim>\<open>mount\<close> of the Feature without a product id. \<open>outcomes\<close> counts them along a run
  of the page.
\<close>

definition reports_to :: "nat \<Rightarrow> world \<Rightarrow> event \<Rightarrow> bool" where
  "reports_to fid w e =
     (case e of
        Message m \<Rightarrow> ev_origin m = popupOrigin w \<and>
          (member (ev_data m) ''type'' = JStr ''GALLIUN_SUCCESS''
           \<or> member (ev_data m) ''type'' = JStr ''GALLIUN_ERROR'')
      | Click eid wo \<Rightarrow>
          (case document w eid of
             Some (Some b) \<Rightarrow>
               click_feature b = fid \<and> (case wo of None \<Rightarrow> True | Some (h, c) \<Rightarrow> c)
           | _ \<Rightarrow> False)
      | Mount g opts \<Rightarrow> g = fid \<and> \<not> truthy (opt_productId opts)
      | _ \<Rightarrow> False)"

fun outcomes :: "nat \<Rightarrow> world \<Rightarrow> event list \<Rightarrow> nat" where
  "outcomes fid w [] = 0"
| "outcomes fid w (e # es) =
     (if reports_to fid w e then 1 else 0) + outcomes fid (step w e) es"




text \<open>Delivering a message to each Feature of a list in turn, whatever each delivery does.\<close>

definition deliver_all :: "world \<Rightarrow> nat list \<Rightarrow> message_event \<Rightarrow> world" where
  "deliver_all w fids m = foldl (\<lambda>w' fid. snd (Button_handleMessage w' fid m)) w fids"

section \<open>Example pages\<close>

text \<open>
  A page of a shop with two containers, \<^verbatim>\<open>pay\<close> and \<^verbatim>\<open>pay2\<close>, and a client for
  \<^verbatim>\<open>https://pay.example\<close>.
\<close>

definition shop :: world where
  "shop = new_client ''https://pay.example'' ''https://pay.example''
            (\<lambda>eid. if eid = ''pay'' \<or> eid = ''pay2'' then Some None else None)"

definition all_callbacks :: "jsval \<Rightarrow> options" where
  "all_callbacks pid =
     \<lparr>opt_productId = pid, opt_onSuccess = Some Returns, opt_onError = Some Returns,
      opt_onClose = Some Returns, opt_onLoaded = Some Returns\<rparr>"

text \<open>One button for the container \<^verbatim>\<open>pay\<close>: created, mounted for product \<^verbatim>\<open>p1\<close>, clicked.\<close>

definition fresh :: world where
  "fresh = step shop (NewButton ''pay'')"

definition mounted :: world where
  "mounted = step fresh (Mount 0 (all_callbacks (JStr ''p1'')))"

definition paying :: world where
  "paying = step mounted (Click ''pay'' (Some (7, False)))"

text \<open>The same button with an \<^verbatim>\<open>onSuccess\<close> callback that throws, clicked.\<close>

definition hasty :: world where
  "hasty =
     run shop
       [NewButton ''pay'',
        Mount 0 ((all_callbacks (JStr ''p1''))\<lparr>opt_onSuccess := Some Throws\<rparr>),
        Click ''pay'' (Some (7, False))]"

text \<open>A button for a container the page does not have.\<close>

definition astray :: world where
  "astray = step shop (NewButton ''nowhere'')"

text \<open>
  Two mounted buttons; the \<^verbatim>\<open>onLoaded\<close> callback of the first one throws.
\<close>

definition two_buttons :: world where
  "two_buttons =
     run shop
       [NewButton ''pay'', NewButton ''pay2'',
        Mount 0 ((all_callbacks (JStr ''p1''))\<lparr>opt_onLoaded := Some Throws\<rparr>),
        Mount 1 (all_callbacks (JStr ''p2''))]"

text \<open>Messages of the protocol.\<close>

definition payment :: "string \<Rightarrow> jsval" where
  "payment pid = JObj [(''transactionId'', JStr ''t1''), (''amount'', JNum 500),
                       (''coinType'', JStr ''USD''), (''timestamp'', JNum 123),
                       (''productId'', JStr pid), (''billId'', JStr ''b1'')]"

definition success_from :: "string \<Rightarrow> string \<Rightarrow> message_event" where
  "success_from orig pid =
     \<lparr>ev_origin = orig,
      ev_data = JObj [(''type'', JStr ''GALLIUN_SUCCESS''), (''data'', payment pid)]\<rparr>"

definition plain_from :: "string \<Rightarrow> string \<Rightarrow> message_event" where
  "plain_from orig ty = \<lparr>ev_origin = orig, ev_data = JObj [(''type'', JStr ty)]\<rparr>"

section \<open>What each operation leaves alone\<close>

lemmas ops = mount_def Let_def registerFeature_def store_callbacks_def render_def
  set_add_def set_delete_def handleError_def andThen_def invoke_def invoke_opt_def
  openPopup_def close_if_open_def close_if_popup_def popup_close_def window_open_def
  is_blocked_def setInterval_def clearInterval_def pollTick_def Button_destroy_def
  unregisterFeature_def Button_handleMessage_def Client_handleMessage_def
  createButton_def new_client_def new_button_def js_or_def assign_productId_def

lemmas examples = shop_def all_callbacks_def fresh_def mounted_def paying_def hasty_def
  astray_def two_buttons_def payment_def success_from_def plain_from_def

lemma assign_productId_frame [simp]:
  "popupOrigin (assign_productId w eid pid) = popupOrigin w"
  "listening (assign_productId w eid pid) = listening w"
  "activeFeatures (assign_productId w eid pid) = activeFeatures w"
  "features (assign_productId w eid pid) = features w"
  "nextFeature (assign_productId w eid pid) = nextFeature w"
  "closed (assign_productId w eid pid) = closed w"
  "timers (assign_productId w eid pid) = timers w"
  "calls (assign_productId w eid pid) = calls w"
  by (simp_all add: assign_productId_def split: option.splits)

lemma popupOrigin_invoke_opt [simp]: "popupOrigin (snd (invoke_opt w fid cbo c)) = popupOrigin w"
  by (simp add: invoke_opt_def invoke_def split: option.splits)

lemma popupOrigin_close_if_popup [simp]: "popupOrigin (close_if_popup w fid) = popupOrigin w"
  by (simp add: close_if_popup_def popup_close_def split: option.splits)

lemma popupOrigin_close_if_open [simp]: "popupOrigin (close_if_open w fid) = popupOrigin w"
  by (simp add: close_if_open_def popup_close_def split: option.splits)

lemma popupOrigin_handleError [simp]: "popupOrigin (snd (handleError w fid err)) = popupOrigin w"
  by (simp add: handleError_def andThen_def invoke_def split: option.splits behaviour.splits)

lemma popupOrigin_Button_handleMessage [simp]:
  "popupOrigin (snd (Button_handleMessage w fid m)) = popupOrigin w"
  by (simp add: Button_handleMessage_def Let_def andThen_def invoke_def
      split: option.splits behaviour.splits)

lemma popupOrigin_dispatch [simp]: "popupOrigin (snd (dispatch w fids m)) = popupOrigin w"
proof (induction fids arbitrary: w)
  case Nil
  show ?case by simp
next
  case (Cons fid fids)
  show ?case
  proof (cases "Button_handleMessage w fid m")
    case (Pair r w')
    have "popupOrigin w' = popupOrigin w"
      using popupOrigin_Button_handleMessage [of w fid m] Pair by simp
    with Pair Cons.IH [of w'] show ?thesis
      by (cases r) (simp_all add: andThen_def)
  qed
qed

lemma popupOrigin_openPopup [simp]: "popupOrigin (snd (openPopup w fid pid wo)) = popupOrigin w"
  by (simp add: openPopup_def Let_def window_open_def setInterval_def)

lemma popupOrigin_pollTick [simp]: "popupOrigin (snd (pollTick w tid)) = popupOrigin w"
  by (simp add: pollTick_def clearInterval_def split: option.splits)

lemma popupOrigin_mount [simp]: "popupOrigin (snd (mount w fid opts)) = popupOrigin w"
  by (simp add: mount_def Let_def registerFeature_def store_callbacks_def render_def
      split: option.splits)

lemma popupOrigin_destroy_all [simp]: "popupOrigin (snd (destroy_all w fids)) = popupOrigin w"
  by (induction fids arbitrary: w)
     (simp_all add: andThen_def Button_destroy_def unregisterFeature_def)

lemma popupOrigin_step: "popupOrigin (step w e) = popupOrigin w"
proof (cases e)
  case (Message m)
  then show ?thesis by (simp add: Client_handleMessage_def)
next
  case (Click eid wo)
  then show ?thesis by (simp split: option.splits)
next
  case DestroyClient
  obtain r w' where d: "destroy_all (w\<lparr>listening := False\<rparr>) (activeFeatures w) = (r, w')"
    by (cases "destroy_all (w\<lparr>listening := False\<rparr>) (activeFeatures w)")
  have "popupOrigin w' = popupOrigin w"
    using popupOrigin_destroy_all [of "w\<lparr>listening := False\<rparr>" "activeFeatures w"] d by simp
  with DestroyClient d show ?thesis
    by (cases r) (simp_all add: Client_destroy_def andThen_def)
qed (simp_all add: popup_close_def Button_destroy_def unregisterFeature_def createButton_def)

lemma activeFeatures_invoke_opt [simp]:
  "activeFeatures (snd (invoke_opt w g cbo c)) = activeFeatures w"
  by (simp add: invoke_opt_def invoke_def split: option.splits)

lemma activeFeatures_close_if_popup [simp]:
  "activeFeatures (close_if_popup w g) = activeFeatures w"
  by (simp add: close_if_popup_def popup_close_def split: option.splits)

lemma activeFeatures_close_if_open [simp]:
  "activeFeatures (close_if_open w g) = activeFeatures w"
  by (simp add: close_if_open_def popup_close_def split: option.splits)

lemma activeFeatures_handleError [simp]:
  "activeFeatures (snd (handleError w g err)) = activeFeatures w"
  by (simp add: handleError_def andThen_def invoke_def split: option.splits behaviour.splits)

lemma activeFeatures_Button_handleMessage [simp]:
  "activeFeatures (snd (Button_handleMessage w g m)) = activeFeatures w"
  by (simp add: Button_handleMessage_def Let_def andThen_def invoke_def
      split: option.splits behaviour.splits)

lemma activeFeatures_dispatch [simp]:
  "activeFeatures (snd (dispatch w fids m)) = activeFeatures w"
proof (induction fids arbitrary: w)
  case Nil
  show ?case by simp
next
  case (Cons g fids)
  obtain r w' where b: "Button_handleMessage w g m = (r, w')"
    by (cases "Button_handleMessage w g m")
  have "activeFeatures w' = activeFeatures w"
    using activeFeatures_Button_handleMessage [of w g m] b by simp
  with b Cons.IH [of w'] show ?case
    by (cases r) (simp_all add: andThen_def)
qed

lemma activeFeatures_openPopup [simp]:
  "activeFeatures (snd (openPopup w g pid wo)) = activeFeatures w"
  by (simp add: openPopup_def Let_def window_open_def setInterval_def)

lemma activeFeatures_pollTick [simp]:
  "activeFeatures (snd (pollTick w tid)) = activeFeatures w"
  by (simp add: pollTick_def clearInterval_def split: option.splits)

lemma distinct_set_add: "distinct xs \<Longrightarrow> distinct (set_add x xs)"
  by (simp add: set_add_def)

lemma distinct_set_delete: "distinct xs \<Longrightarrow> distinct (set_delete x xs)"
  by (simp add: set_delete_def)

lemma distinct_mount:
  "distinct (activeFeatures w) \<Longrightarrow> distinct (activeFeatures (snd (mount w g opts)))"
  by (simp add: mount_def Let_def registerFeature_def store_callbacks_def render_def
      distinct_set_add split: option.splits)

lemma distinct_destroy_all:
  "distinct (activeFeatures w) \<Longrightarrow> distinct (activeFeatures (snd (destroy_all w fids)))"
  by (induction fids arbitrary: w)
     (simp_all add: andThen_def Button_destroy_def unregisterFeature_def distinct_set_delete)

lemma distinct_Client_destroy:
  "distinct (activeFeatures w) \<Longrightarrow> distinct (activeFeatures (snd (Client_destroy w)))"
proof -
  assume dw: "distinct (activeFeatures w)"
  obtain r w' where d: "destroy_all (w\<lparr>listening := False\<rparr>) (activeFeatures w) = (r, w')"
    by (cases "destroy_all (w\<lparr>listening := False\<rparr>) (activeFeatures w)")
  have "distinct (activeFeatures w')"
    using distinct_destroy_all [of "w\<lparr>listening := False\<rparr>" "activeFeatures w"] d dw by simp
  with d show ?thesis
    by (cases r) (simp_all add: Client_destroy_def andThen_def)
qed

lemma distinct_step:
  assumes "distinct (activeFeatures w)"
  shows "distinct (activeFeatures (step w e))"
proof (cases e)
  case (Message m)
  with assms show ?thesis by (simp add: Client_handleMessage_def)
next
  case (Click eid wo)
  with assms show ?thesis by (simp split: option.splits)
next
  case (Mount g opts)
  with assms show ?thesis by (simp add: distinct_mount)
next
  case DestroyClient
  with assms show ?thesis by (simp add: distinct_Client_destroy)
qed (use assms in \<open>simp_all add: popup_close_def Button_destroy_def unregisterFeature_def
       distinct_set_delete createButton_def\<close>)

lemma distinct_run:
  "distinct (activeFeatures w) \<Longrightarrow> distinct (activeFeatures (run w es))"
  by (induction es arbitrary: w) (simp_all add: distinct_step)

text \<open>The registry of a page, however the page was reached, holds no Feature twice.\<close>

lemma registry_distinct:
  "distinct (activeFeatures (run (new_client base orig containers) es))"
  by (rule distinct_run) (simp add: new_client_def)

lemma run_append: "run w (xs @ ys) = run (run w xs) ys"
  by (induction xs arbitrary: w) simp_all

section \<open>The callbacks each operation makes\<close>

lemma terminal_calls_Nil [simp]: "terminal_calls fid [] = 0"
  by (simp add: terminal_calls_def)

lemma terminal_calls_append [simp]:
  "terminal_calls fid (xs @ ys) = terminal_calls fid xs + terminal_calls fid ys"
  by (simp add: terminal_calls_def)

lemma terminal_calls_single [simp]:
  "terminal_calls fid [(g, c)] = (if g = fid \<and> is_terminal c then 1 else 0)"
  by (simp add: terminal_calls_def)

lemma calls_invoke [simp]: "calls (snd (invoke w g cb c)) = calls w @ [(g, c)]"
  by (simp add: invoke_def)

lemma calls_invoke_opt [simp]:
  "calls (snd (invoke_opt w g cbo c)) = calls w @ (case cbo of None \<Rightarrow> [] | Some cb \<Rightarrow> [(g, c)])"
  by (simp add: invoke_opt_def split: option.splits)

lemma calls_close_if_popup [simp]: "calls (close_if_popup w g) = calls w"
  by (simp add: close_if_popup_def popup_close_def split: option.splits)

lemma calls_close_if_open [simp]: "calls (close_if_open w g) = calls w"
  by (simp add: close_if_open_def popup_close_def split: option.splits)

lemma calls_handleError:
  "calls (snd (handleError w g err)) =
     calls w @ (case onError (callbacks (features w g)) of
                  None \<Rightarrow> []
                | Some cb \<Rightarrow> if nullish err then []
                    else [(g, OnError (standardError err (productId (features w g)) (now w)))])"
  by (simp add: handleError_def andThen_def invoke_def split: option.splits behaviour.splits)

lemma terminal_handleError:
  "terminal_calls fid (calls (snd (handleError w g err)))
     \<le> terminal_calls fid (calls w) + (if g = fid then 1 else 0)"
  by (simp add: calls_handleError split: option.splits)

lemma calls_Button_handleMessage:
  "calls (snd (Button_handleMessage w g m)) =
     calls w @
     (if nullish (ev_data m) then []
      else if member (ev_data m) ''type'' = JStr ''GALLIUN_LOADED'' then
        (case onLoaded (callbacks (features w g)) of None \<Rightarrow> [] | Some cb \<Rightarrow> [(g, OnLoaded)])
      else if member (ev_data m) ''type'' = JStr ''GALLIUN_SUCCESS'' then
        (case onSuccess (callbacks (features w g)) of
           None \<Rightarrow> []
         | Some cb \<Rightarrow> if nullish (member (ev_data m) ''data'') then []
             else [(g, OnSuccess (successResult (member (ev_data m) ''data'')))])
      else if member (ev_data m) ''type'' = JStr ''GALLIUN_ERROR'' then
        (case onError (callbacks (features w g)) of
           None \<Rightarrow> []
         | Some cb \<Rightarrow> if nullish (member (ev_data m) ''data'') then []
             else [(g, OnError (standardError (member (ev_data m) ''data'')
                                  (productId (features w g)) (now w)))])
      else if member (ev_data m) ''type'' = JStr ''GALLIUN_CLOSE'' then
        (case onClose (callbacks (features w g)) of None \<Rightarrow> [] | Some cb \<Rightarrow> [(g, OnClose)])
      else [])"
proof (cases "nullish (ev_data m)")
  case True
  then show ?thesis by (simp add: Button_handleMessage_def)
next
  case False
  note nn = this
  show ?thesis
  proof (cases "member (ev_data m) ''type'' = JStr ''GALLIUN_SUCCESS''")
    case True
    with nn show ?thesis
      by (cases "onSuccess (callbacks (features w g))")
         (simp_all add: Button_handleMessage_def Let_def andThen_def invoke_def
            split: behaviour.splits)
  next
    case False
    with nn show ?thesis
      by (simp add: Button_handleMessage_def Let_def calls_handleError)
  qed
qed

lemma terminal_Button_handleMessage:
  "terminal_calls fid (calls (snd (Button_handleMessage w g m)))
     \<le> terminal_calls fid (calls w) + (if g = fid then 1 else 0)"
  unfolding calls_Button_handleMessage
  by (simp split: option.splits)

lemma quiet_Button_handleMessage:
  assumes "member (ev_data m) ''type'' \<noteq> JStr ''GALLIUN_SUCCESS''"
      and "member (ev_data m) ''type'' \<noteq> JStr ''GALLIUN_ERROR''"
  shows "terminal_calls fid (calls (snd (Button_handleMessage w g m))) = terminal_calls fid (calls w)"
  unfolding calls_Button_handleMessage using assms
  by (simp split: option.splits)

lemma terminal_dispatch:
  "distinct fids \<Longrightarrow>
   terminal_calls fid (calls (snd (dispatch w fids m)))
     \<le> terminal_calls fid (calls w) + (if fid \<in> set fids then 1 else 0)"
proof (induction fids arbitrary: w)
  case Nil
  show ?case by simp
next
  case (Cons g fids)
  obtain r w' where b: "Button_handleMessage w g m = (r, w')"
    by (cases "Button_handleMessage w g m")
  have one: "terminal_calls fid (calls w') \<le> terminal_calls fid (calls w) + (if g = fid then 1 else 0)"
    using terminal_Button_handleMessage [of fid w g m] b by simp
  show ?case
  proof (cases r)
    case None
    have "terminal_calls fid (calls (snd (dispatch w' fids m)))
            \<le> terminal_calls fid (calls w') + (if fid \<in> set fids then 1 else 0)"
      using Cons.IH [of w'] Cons.prems by simp
    with one Cons.prems b None show ?thesis
      by (auto simp: andThen_def split: if_splits)
  next
    case (Some e)
    with one b show ?thesis by (auto simp: andThen_def split: if_splits)
  qed
qed

lemma quiet_dispatch:
  assumes "member (ev_data m) ''type'' \<noteq> JStr ''GALLIUN_SUCCESS''"
      and "member (ev_data m) ''type'' \<noteq> JStr ''GALLIUN_ERROR''"
  shows "terminal_calls fid (calls (snd (dispatch w fids m))) = terminal_calls fid (calls w)"
proof (induction fids arbitrary: w)
  case Nil
  show ?case by simp
next
  case (Cons g fids)
  obtain r w' where b: "Button_handleMessage w g m = (r, w')"
    by (cases "Button_handleMessage w g m")
  have "terminal_calls fid (calls w') = terminal_calls fid (calls w)"
    using quiet_Button_handleMessage [OF assms, of fid w g] b by simp
  with b Cons.IH [of w'] show ?case
    by (cases r) (simp_all add: andThen_def)
qed

lemma calls_pollTick:
  "terminal_calls fid (calls (snd (pollTick w tid))) = terminal_calls fid (calls w)"
  by (simp add: pollTick_def clearInterval_def split: option.splits)

lemma calls_destroy_all [simp]: "calls (snd (destroy_all w fids)) = calls w"
  by (induction fids arbitrary: w)
     (simp_all add: andThen_def Button_destroy_def unregisterFeature_def)

lemma calls_Client_destroy [simp]: "calls (snd (Client_destroy w)) = calls w"
proof -
  obtain r w' where d: "destroy_all (w\<lparr>listening := False\<rparr>) (activeFeatures w) = (r, w')"
    by (cases "destroy_all (w\<lparr>listening := False\<rparr>) (activeFeatures w)")
  have "calls w' = calls w"
    using calls_destroy_all [of "w\<lparr>listening := False\<rparr>" "activeFeatures w"] d by simp
  with d show ?thesis
    by (cases r) (simp_all add: Client_destroy_def andThen_def)
qed

lemma is_blocked_openPopup:
  "is_blocked (snd (openPopup w fid pid wo)) fid
     = is_blocked (window_open (close_if_open w fid) fid pid wo) fid"
  by (simp add: openPopup_def Let_def handleError_def andThen_def invoke_def is_blocked_def
      setInterval_def close_if_popup_def popup_close_def
      split: option.splits behaviour.splits)

lemma calls_window_open [simp]: "calls (window_open w fid pid wo) = calls w"
  by (simp add: window_open_def)

lemma calls_openPopup:
  "calls (snd (openPopup w fid pid wo)) =
     calls w @
     (if is_blocked (snd (openPopup w fid pid wo)) fid then
        (case onError (callbacks (features w fid)) of
           None \<Rightarrow> []
         | Some cb \<Rightarrow> [(fid, OnError (standardError popup_blocked (productId (features w fid)) (now w)))])
      else [])"
proof -
  have f: "onError (callbacks (features (window_open (close_if_open w fid) fid pid wo) fid))
             = onError (callbacks (features w fid))"
       "productId (features (window_open (close_if_open w fid) fid pid wo) fid)
             = productId (features w fid)"
       "now (window_open (close_if_open w fid) fid pid wo) = now w"
    by (simp_all add: window_open_def close_if_open_def popup_close_def split: option.splits)
  show ?thesis
    unfolding is_blocked_openPopup
    by (simp add: openPopup_def Let_def calls_handleError f setInterval_def popup_blocked_def
        split: option.splits)
qed

lemma is_blocked_window_open:
  "is_blocked (window_open w g pid wo) g = (case wo of None \<Rightarrow> True | Some (h, c) \<Rightarrow> c)"
  by (simp add: is_blocked_def window_open_def split: option.splits prod.splits)

lemma calls_mount:
  "calls (snd (mount w g opts)) =
     calls w @
     (case document w (elementId (features w g)) of
        None \<Rightarrow> []
      | Some container \<Rightarrow>
          if truthy (opt_productId opts) then []
          else (case opt_onError opts of
                  None \<Rightarrow> []
                | Some cb \<Rightarrow>
                    [(g, OnError (standardError parameter_missing (productId (features w g))
                                    (now w)))]))"
proof -
  have "\<not> nullish parameter_missing"
    by (simp add: parameter_missing_def)
  then show ?thesis
    by (simp add: mount_def Let_def calls_handleError registerFeature_def store_callbacks_def
        render_def split: option.splits)
qed

lemma terminal_calls_step:
  assumes "distinct (activeFeatures w)"
  shows "terminal_calls fid (calls (step w e))
           \<le> terminal_calls fid (calls w) + (if reports_to fid w e then 1 else 0)"
proof (cases e)
  case (Message m)
  show ?thesis
  proof (cases "listening w \<and> ev_origin m = popupOrigin w")
    case True
    note t = this
    show ?thesis
    proof (cases "member (ev_data m) ''type'' = JStr ''GALLIUN_SUCCESS''
                  \<or> member (ev_data m) ''type'' = JStr ''GALLIUN_ERROR''")
      case True
      have "terminal_calls fid (calls (snd (dispatch w (activeFeatures w) m)))
              \<le> terminal_calls fid (calls w) + 1"
        using terminal_dispatch [OF assms, of fid w m] by (simp split: if_splits)
      with Message t True show ?thesis
        by (simp add: Client_handleMessage_def reports_to_def)
    next
      case False
      then have "terminal_calls fid (calls (snd (dispatch w (activeFeatures w) m)))
                   = terminal_calls fid (calls w)"
        using quiet_dispatch [of m fid w "activeFeatures w"] by simp
      with Message t show ?thesis
        by (simp add: Client_handleMessage_def)
    qed
  next
    case False
    with Message show ?thesis by (auto simp: Client_handleMessage_def)
  qed
next
  case (Click eid wo)
  show ?thesis
  proof (cases "document w eid")
    case None
    with Click show ?thesis by simp
  next
    case (Some c)
    show ?thesis
    proof (cases c)
      case None
      with Click Some show ?thesis by simp
    next
      case (Some b)
      with Click \<open>document w eid = Some c\<close> show ?thesis
        by (simp add: calls_openPopup is_blocked_openPopup is_blocked_window_open
            reports_to_def split: option.splits prod.splits)
    qed
  qed
next
  case (Tick tid)
  then show ?thesis by (simp add: calls_pollTick)
next
  case (Mount g opts)
  then show ?thesis
    by (simp add: calls_mount reports_to_def split: option.splits)
qed (simp_all add: popup_close_def Button_destroy_def unregisterFeature_def createButton_def)

lemma handleError_frame:
  "opened (snd (handleError w fid err)) = opened w"
  "timers (snd (handleError w fid err)) = timers w"
  "nextTimer (snd (handleError w fid err)) = nextTimer w"
  "document (snd (handleError w fid err)) = document w"
  "features (snd (handleError w fid err)) = features w"
  by (simp_all add: handleError_def andThen_def invoke_def close_if_popup_def popup_close_def
      split: option.splits behaviour.splits)

lemma standardError_parameter_missing:
  "standardError parameter_missing p t =
     JObj [(''type'', JStr ''validation_error''),
           (''code'', JStr ''parameter_missing''),
           (''message'', JStr ''Product ID is required''),
           (''param'', JStr ''productId''),
           (''metadata'', JObj [(''productId'', p), (''timestamp'', JNum t)])]"
  by (simp add: standardError_def parameter_missing_def js_or_def)

lemma standardError_popup_blocked:
  "standardError popup_blocked p t =
     JObj [(''type'', JStr ''popup_error''),
           (''code'', JStr ''popup_blocked''),
           (''message'', JStr ''Payment popup was blocked. Please allow popups for this site.''),
           (''param'', JUndefined),
           (''metadata'', JObj [(''productId'', p), (''timestamp'', JNum t)])]"
  by (simp add: standardError_def popup_blocked_def js_or_def)

lemma synthesized_not_nullish [simp]:
  "\<not> nullish parameter_missing" "\<not> nullish popup_blocked"
  by (simp_all add: parameter_missing_def popup_blocked_def)

lemma mount_missing_productId:
  assumes "document w (elementId (features w fid)) = Some container"
      and "\<not> truthy (opt_productId opts)"
  shows "mount w fid opts =
           handleError (registerFeature (store_callbacks w fid opts) fid) fid parameter_missing"
  using assms by (simp add: mount_def Let_def)

lemma features_invoke_opt [simp]: "features (snd (invoke_opt w g cbo c)) = features w"
  by (simp add: invoke_opt_def invoke_def split: option.splits)

lemma features_close_if_popup [simp]: "features (close_if_popup w g) = features w"
  by (simp add: close_if_popup_def popup_close_def split: option.splits)

lemma features_close_if_open [simp]: "features (close_if_open w g) = features w"
  by (simp add: close_if_open_def popup_close_def split: option.splits)

lemma features_Button_handleMessage [simp]:
  "features (snd (Button_handleMessage w g m)) = features w"
  by (simp add: Button_handleMessage_def Let_def andThen_def invoke_def handleError_frame
      split: option.splits behaviour.splits)

lemma features_dispatch [simp]: "features (snd (dispatch w fids m)) = features w"
proof (induction fids arbitrary: w)
  case Nil
  show ?case by simp
next
  case (Cons g fids)
  obtain r w' where b: "Button_handleMessage w g m = (r, w')"
    by (cases "Button_handleMessage w g m")
  have "features w' = features w"
    using features_Button_handleMessage [of w g m] b by simp
  with b Cons.IH [of w'] show ?case
    by (cases r) (simp_all add: andThen_def)
qed

lemma productId_openPopup [simp]:
  "productId (features (snd (openPopup w g pid wo)) fid) = productId (features w fid)"
  by (simp add: openPopup_def Let_def handleError_frame window_open_def setInterval_def)

lemma features_pollTick [simp]: "features (snd (pollTick w tid)) = features w"
  by (simp add: pollTick_def clearInterval_def split: option.splits)

lemma features_destroy_all [simp]: "features (snd (destroy_all w fids)) = features w"
  by (induction fids arbitrary: w)
     (simp_all add: andThen_def Button_destroy_def unregisterFeature_def)

lemma features_Client_destroy [simp]: "features (snd (Client_destroy w)) = features w"
proof -
  obtain r w' where d: "destroy_all (w\<lparr>listening := False\<rparr>) (activeFeatures w) = (r, w')"
    by (cases "destroy_all (w\<lparr>listening := False\<rparr>) (activeFeatures w)")
  have "features w' = features w"
    using features_destroy_all [of "w\<lparr>listening := False\<rparr>" "activeFeatures w"] d by simp
  with d show ?thesis
    by (cases r) (simp_all add: Client_destroy_def andThen_def)
qed


lemma nextFeature_invoke_opt [simp]: "nextFeature (snd (invoke_opt w g cbo c)) = nextFeature w"
  by (simp add: invoke_opt_def invoke_def split: option.splits)

lemma nextFeature_close_if_popup [simp]: "nextFeature (close_if_popup w g) = nextFeature w"
  by (simp add: close_if_popup_def popup_close_def split: option.splits)

lemma nextFeature_close_if_open [simp]: "nextFeature (close_if_open w g) = nextFeature w"
  by (simp add: close_if_open_def popup_close_def split: option.splits)

lemma nextFeature_handleError [simp]:
  "nextFeature (snd (handleError w g err)) = nextFeature w"
  by (simp add: handleError_def andThen_def invoke_def split: option.splits behaviour.splits)

lemma nextFeature_Button_handleMessage [simp]:
  "nextFeature (snd (Button_handleMessage w g m)) = nextFeature w"
  by (simp add: Button_handleMessage_def Let_def andThen_def invoke_def
      split: option.splits behaviour.splits)

lemma nextFeature_dispatch [simp]: "nextFeature (snd (dispatch w fids m)) = nextFeature w"
proof (induction fids arbitrary: w)
  case Nil
  show ?case by simp
next
  case (Cons g fids)
  obtain r w' where b: "Button_handleMessage w g m = (r, w')"
    by (cases "Button_handleMessage w g m")
  have "nextFeature w' = nextFeature w"
    using nextFeature_Button_handleMessage [of w g m] b by simp
  with b Cons.IH [of w'] show ?case
    by (cases r) (simp_all add: andThen_def)
qed

lemma nextFeature_openPopup [simp]:
  "nextFeature (snd (openPopup w g pid wo)) = nextFeature w"
  by (simp add: openPopup_def Let_def window_open_def setInterval_def)

lemma nextFeature_pollTick [simp]: "nextFeature (snd (pollTick w tid)) = nextFeature w"
  by (simp add: pollTick_def clearInterval_def split: option.splits)

lemma nextFeature_mount [simp]: "nextFeature (snd (mount w g opts)) = nextFeature w"
  by (simp add: mount_def Let_def registerFeature_def store_callbacks_def render_def
      split: option.splits)

lemma nextFeature_destroy_all [simp]: "nextFeature (snd (destroy_all w fids)) = nextFeature w"
  by (induction fids arbitrary: w)
     (simp_all add: andThen_def Button_destroy_def unregisterFeature_def)

lemma nextFeature_Client_destroy [simp]: "nextFeature (snd (Client_destroy w)) = nextFeature w"
proof -
  obtain r w' where d: "destroy_all (w\<lparr>listening := False\<rparr>) (activeFeatures w) = (r, w')"
    by (cases "destroy_all (w\<lparr>listening := False\<rparr>) (activeFeatures w)")
  have "nextFeature w' = nextFeature w"
    using nextFeature_destroy_all [of "w\<lparr>listening := False\<rparr>" "activeFeatures w"] d by simp
  with d show ?thesis
    by (cases r) (simp_all add: Client_destroy_def andThen_def)
qed







section \<open>Closed windows and running timers\<close>

lemma closed_invoke_opt [simp]: "closed (snd (invoke_opt w g cbo c)) = closed w"
  by (simp add: invoke_opt_def invoke_def split: option.splits)






lemma closed_pollTick [simp]: "closed (snd (pollTick w tid)) = closed w"
  by (simp add: pollTick_def clearInterval_def split: option.splits)





lemma popup_mount [simp]:
  "popup (features (snd (mount w g opts)) fid) = popup (features w fid)"
  by (simp add: mount_def Let_def handleError_frame registerFeature_def store_callbacks_def
      render_def split: option.splits)





lemma timers_invoke_opt [simp]: "timers (snd (invoke_opt w g cbo c)) = timers w"
  by (simp add: invoke_opt_def invoke_def split: option.splits)

lemma timers_close_if_popup [simp]: "timers (close_if_popup w g) = timers w"
  by (simp add: close_if_popup_def popup_close_def split: option.splits)

lemma timers_close_if_open [simp]: "timers (close_if_open w g) = timers w"
  by (simp add: close_if_open_def popup_close_def split: option.splits)

lemma timers_Button_handleMessage [simp]:
  "timers (snd (Button_handleMessage w g m)) = timers w"
  by (simp add: Button_handleMessage_def Let_def andThen_def invoke_def handleError_frame
      split: option.splits behaviour.splits)

lemma timers_dispatch [simp]: "timers (snd (dispatch w fids m)) = timers w"
proof (induction fids arbitrary: w)
  case Nil
  show ?case by simp
next
  case (Cons g fids)
  obtain r w' where b: "Button_handleMessage w g m = (r, w')"
    by (cases "Button_handleMessage w g m")
  have "timers w' = timers w"
    using timers_Button_handleMessage [of w g m] b by simp
  with b Cons.IH [of w'] show ?case
    by (cases r) (simp_all add: andThen_def)
qed

lemma timers_mount [simp]: "timers (snd (mount w g opts)) = timers w"
  by (simp add: mount_def Let_def handleError_frame registerFeature_def store_callbacks_def
      render_def split: option.splits)

lemma timers_destroy_all [simp]: "timers (snd (destroy_all w fids)) = timers w"
  by (induction fids arbitrary: w)
     (simp_all add: andThen_def Button_destroy_def unregisterFeature_def)

lemma timers_Client_destroy [simp]: "timers (snd (Client_destroy w)) = timers w"
proof -
  obtain r w' where d: "destroy_all (w\<lparr>listening := False\<rparr>) (activeFeatures w) = (r, w')"
    by (cases "destroy_all (w\<lparr>listening := False\<rparr>) (activeFeatures w)")
  have "timers w' = timers w"
    using timers_destroy_all [of "w\<lparr>listening := False\<rparr>" "activeFeatures w"] d by simp
  with d show ?thesis
    by (cases r) (simp_all add: Client_destroy_def andThen_def)
qed








lemma dispatch_append:
  "dispatch w (xs @ ys) m = andThen (dispatch w xs m) (\<lambda>w'. dispatch w' ys m)"
proof (induction xs arbitrary: w)
  case Nil
  show ?case by (simp add: andThen_def)
next
  case (Cons x xs)
  show ?case
    by (cases "Button_handleMessage w x m") (simp add: andThen_def Cons.IH split: option.splits)
qed

lemma dispatch_returns:
  "fst (dispatch w fids m) = None \<Longrightarrow> snd (dispatch w fids m) = deliver_all w fids m"
proof (induction fids arbitrary: w)
  case Nil
  show ?case by (simp add: deliver_all_def)
next
  case (Cons g fids)
  obtain r w' where b: "Button_handleMessage w g m = (r, w')"
    by (cases "Button_handleMessage w g m")
  with Cons.prems have r: "r = None"
    by (cases r) (simp_all add: andThen_def)
  with b Cons.prems have "fst (dispatch w' fids m) = None"
    by (simp add: andThen_def)
  from Cons.IH [OF this] b r show ?case
    by (simp add: andThen_def deliver_all_def)
qed

lemma step_cross_origin: "cross_origin (popupOrigin w) e \<Longrightarrow> step w e = w"
  by (cases e) (simp_all add: cross_origin_def Client_handleMessage_def)

lemma run_without_cross_origin:
  "run w (filter (\<lambda>e. \<not> cross_origin (popupOrigin w) e) es) = run w es"
proof (induction es arbitrary: w)
  case Nil
  show ?case by simp
next
  case (Cons e es)
  show ?case
  proof (cases "cross_origin (popupOrigin w) e")
    case True
    with Cons.IH [of w] show ?thesis by (simp add: step_cross_origin)
  next
    case False
    with Cons.IH [of "step w e"] show ?thesis by (simp add: popupOrigin_step)
  qed
qed

lemma set_add_idem: "set_add x (set_add x xs) = set_add x xs"
  by (simp add: set_add_def)

lemma set_delete_absent: "x \<notin> set xs \<Longrightarrow> set_delete x xs = xs"
  by (auto simp: set_delete_def filter_id_conv)

lemma set_delete_removes: "x \<notin> set (set_delete x xs)"
  by (simp add: set_delete_def)

section \<open>The properties\<close>

subsection \<open>Cross-origin messages\<close>

text \<open>
  Claim C1. A message whose origin differs from the client's trusted origin is
  discarded by \<^verbatim>\<open>GalliunClient.handleMessage\<close>: it throws nothing and leaves the
  whole page as it was (no handler runs, no callback is called, nothing is logged).
  Hence a run of the page is the same with and without any number of such messages
  among its events.
\<close>

theorem cross_origin_isolation:
  "(ev_origin m \<noteq> popupOrigin w \<longrightarrow> Client_handleMessage w m = (None, w))
   \<and> run w (filter (\<lambda>e. \<not> cross_origin (popupOrigin w) e) es) = run w es"
  by (simp add: run_without_cross_origin Client_handleMessage_def)

text \<open>
  An instance: while a popup is open, a success message from
  \<^verbatim>\<open>https://evil.example\<close> changes nothing, before and after a trusted message.
\<close>

theorem cross_origin_isolation_witness:
  "ev_origin (success_from ''https://evil.example'' ''p1'') \<noteq> popupOrigin paying
   \<and> calls (snd (Client_handleMessage paying (success_from ''https://evil.example'' ''p1'')))
       = calls paying
   \<and> calls (run paying [Message (success_from ''https://evil.example'' ''p1''),
                        Message (plain_from ''https://pay.example'' ''GALLIUN_LOADED''),
                        Message (success_from ''https://evil.example'' ''p1'')])
       = [(0, OnLoaded)]"
  using cross_origin_isolation [of "success_from ''https://evil.example'' ''p1''" paying
      "[Message (success_from ''https://evil.example'' ''p1''),
        Message (plain_from ''https://pay.example'' ''GALLIUN_LOADED''),
        Message (success_from ''https://evil.example'' ''p1'')]"]
  by (simp add: examples ops cross_origin_def)

subsection \<open>Terminal callbacks of a payment attempt\<close>

text \<open>
  Claim C2, as the code has it. Along any run of the page, and so along a payment
  attempt (a click that opens the popup and the events that follow it), a Feature
  receives at most one call of \<^verbatim>\<open>onSuccess\<close> or \<^verbatim>\<open>onError\<close> for each outcome event
  of the run: a trusted success or error message, a blocked opening of its popup, a
  \<^verbatim>\<open>mount\<close> of it without a product id. No other event brings a terminal callback.
  The Feature keeps no record of an outcome, so the bound is one call for each outcome
  event, not one call for each attempt. Calls of \<^verbatim>\<open>onClose\<close> and \<^verbatim>\<open>onLoaded\<close> are
  not counted. The registry is a Set, so it holds no Feature twice.
\<close>

theorem terminal_callbacks_per_outcome:
  assumes "distinct (activeFeatures w)"
  shows "terminal_calls fid (calls (run w es))
           \<le> terminal_calls fid (calls w) + outcomes fid w es"
  using assms
proof (induction es arbitrary: w)
  case Nil
  show ?case by simp
next
  case (Cons e es)
  have "terminal_calls fid (calls (run (step w e) es))
          \<le> terminal_calls fid (calls (step w e)) + outcomes fid (step w e) es"
    using Cons.IH [of "step w e"] distinct_step [OF Cons.prems] by simp
  with terminal_calls_step [OF Cons.prems, of fid e] show ?case
    by simp
qed

text \<open>
  An instance: a click opens the popup, the remote page reports that it has loaded, the
  poll timer fires, a foreign page sends a success message, and the payment succeeds:
  one outcome event, one terminal callback.
\<close>

theorem terminal_callbacks_per_outcome_witness:
  "distinct (activeFeatures mounted)
   \<and> terminal_calls 0 (calls mounted) = 0
   \<and> outcomes 0 mounted
         [Click ''pay'' (Some (7, False)),
          Message (plain_from ''https://pay.example'' ''GALLIUN_LOADED''),
          Tick 0,
          Message (success_from ''https://evil.example'' ''p1''),
          Message (success_from ''https://pay.example'' ''p1'')] = 1
   \<and> terminal_calls 0 (calls (run mounted
         [Click ''pay'' (Some (7, False)),
          Message (plain_from ''https://pay.example'' ''GALLIUN_LOADED''),
          Tick 0,
          Message (success_from ''https://evil.example'' ''p1''),
          Message (success_from ''https://pay.example'' ''p1'')])) \<le> 1"
  using terminal_callbacks_per_outcome [of mounted 0
      "[Click ''pay'' (Some (7, False)),
        Message (plain_from ''https://pay.example'' ''GALLIUN_LOADED''),
        Tick 0,
        Message (success_from ''https://evil.example'' ''p1''),
        Message (success_from ''https://pay.example'' ''p1'')]"]
  by (simp add: examples ops reports_to_def)

text \<open>
  The claim as written fails: after one click on the button, which opens one popup,
  the remote page sends a success message and then an error message, and the Feature
  receives \<^verbatim>\<open>onSuccess\<close> and then \<^verbatim>\<open>onError\<close>.
\<close>

theorem two_terminal_callbacks_counterexample:
  "calls (run mounted
     [Click ''pay'' (Some (7, False)),
      Message (success_from ''https://pay.example'' ''p1''),
      Message \<lparr>ev_origin = ''https://pay.example'',
        ev_data = JObj [(''type'', JStr ''GALLIUN_ERROR''),
                        (''data'', JObj [(''code'', JStr ''late'')])]\<rparr>])
     = [(0, OnSuccess (successResult (payment ''p1''))),
        (0, OnError (standardError (JObj [(''code'', JStr ''late'')]) (JStr ''p1'') 0))]
   \<and> opened (run mounted
     [Click ''pay'' (Some (7, False)),
      Message (success_from ''https://pay.example'' ''p1''),
      Message \<lparr>ev_origin = ''https://pay.example'',
        ev_data = JObj [(''type'', JStr ''GALLIUN_ERROR''),
                        (''data'', JObj [(''code'', JStr ''late'')])]\<rparr>])
     = [(''https://pay.example'', JStr ''p1'')]
   \<and> terminal_calls 0 (calls (run mounted
     [Click ''pay'' (Some (7, False)),
      Message (success_from ''https://pay.example'' ''p1''),
      Message \<lparr>ev_origin = ''https://pay.example'',
        ev_data = JObj [(''type'', JStr ''GALLIUN_ERROR''),
                        (''data'', JObj [(''code'', JStr ''late'')])]\<rparr>])) = 2"
  by (simp add: examples ops terminal_calls_def)

subsection \<open>The success message\<close>

text \<open>
  Claim C3, as the code has it. A Feature with an \<^verbatim>\<open>onSuccess\<close> callback that
  handles a \<^verbatim>\<open>GALLIUN_SUCCESS\<close> message with payload \<open>d\<close> calls \<^verbatim>\<open>onSuccess\<close> exactly
  once, with the normalized result built from \<open>d\<close>. The \<^verbatim>\<open>metadata.productId\<close> of
  the result is \<^verbatim>\<open>d.productId\<close>, the value the message carries, not the Feature's
  stored \<open>productId\<close>. When the callback returns, the handler returns and the popup the
  Feature holds is closed. When the callback throws, the handler throws too and has
  closed no window.
\<close>

theorem success_result_from_payload:
  assumes "onSuccess (callbacks (features w fid)) = Some cb"
      and "member (ev_data m) ''type'' = JStr ''GALLIUN_SUCCESS''"
      and "member (ev_data m) ''data'' = d"
      and "\<not> nullish d"
  shows "calls (snd (Button_handleMessage w fid m)) =
           calls w @ [(fid, OnSuccess (JObj
             [(''id'', member d ''transactionId''),
              (''status'', JStr ''succeeded''),
              (''amount'', member d ''amount''),
              (''currency'', member d ''coinType''),
              (''created'', member d ''timestamp''),
              (''metadata'', JObj [(''productId'', member d ''productId''),
                                   (''billId'', member d ''billId'')]),
              (''product'', member d ''product'')]))]
         \<and> (cb = Returns \<longrightarrow>
               fst (Button_handleMessage w fid m) = None
               \<and> (\<forall>h. popup (features w fid) = Some h \<longrightarrow>
                      closed (snd (Button_handleMessage w fid m)) h))
         \<and> (cb = Throws \<longrightarrow>
               fst (Button_handleMessage w fid m) = Some CallbackThrew
               \<and> closed (snd (Button_handleMessage w fid m)) = closed w)"
proof -
  have nn: "\<not> nullish (ev_data m)"
    using assms(2) by (cases "ev_data m") simp_all
  have c: "calls (snd (Button_handleMessage w fid m)) =
             calls w @ [(fid, OnSuccess (successResult d))]"
    using assms nn by (simp add: calls_Button_handleMessage)
  have r: "fst (Button_handleMessage w fid m) = None
           \<and> (\<forall>h. popup (features w fid) = Some h \<longrightarrow>
                  closed (snd (Button_handleMessage w fid m)) h)"
    if "cb = Returns"
    using assms nn that
    by (simp add: Button_handleMessage_def Let_def andThen_def invoke_def
        close_if_popup_def popup_close_def)
  have t: "fst (Button_handleMessage w fid m) = Some CallbackThrew
           \<and> closed (snd (Button_handleMessage w fid m)) = closed w"
    if "cb = Throws"
    using assms nn that
    by (simp add: Button_handleMessage_def Let_def andThen_def invoke_def)
  from c r t show ?thesis
    by (simp add: successResult_def)
qed

text \<open>
  An instance: the payment of the open popup succeeds, and window 7 is closed; with an
  \<^verbatim>\<open>onSuccess\<close> that throws, window 7 stays open.
\<close>

theorem success_result_from_payload_witness:
  "onSuccess (callbacks (features paying 0)) = Some Returns
   \<and> onSuccess (callbacks (features hasty 0)) = Some Throws
   \<and> \<not> nullish (payment ''p1'')
   \<and> calls (snd (Button_handleMessage paying 0 (success_from ''https://pay.example'' ''p1'')))
       = [(0, OnSuccess (JObj
             [(''id'', JStr ''t1''),
              (''status'', JStr ''succeeded''),
              (''amount'', JNum 500),
              (''currency'', JStr ''USD''),
              (''created'', JNum 123),
              (''metadata'', JObj [(''productId'', JStr ''p1''), (''billId'', JStr ''b1'')]),
              (''product'', JUndefined)]))]
   \<and> closed (snd (Button_handleMessage paying 0 (success_from ''https://pay.example'' ''p1''))) 7
   \<and> fst (Button_handleMessage hasty 0 (success_from ''https://pay.example'' ''p1''))
       = Some CallbackThrew
   \<and> \<not> closed (snd (Button_handleMessage hasty 0 (success_from ''https://pay.example'' ''p1''))) 7"
  using success_result_from_payload [of paying 0 Returns
      "success_from ''https://pay.example'' ''p1''" "payment ''p1''"]
    success_result_from_payload [of hasty 0 Throws
      "success_from ''https://pay.example'' ''p1''" "payment ''p1''"]
  by (simp add: examples ops)

text \<open>
  The claim as written fails: the Feature mounted for product \<^verbatim>\<open>p1\<close> receives a
  trusted success message that carries \<^verbatim>\<open>p2\<close> (every trusted message reaches every
  registered Feature), and its \<^verbatim>\<open>onSuccess\<close> gets \<^verbatim>\<open>metadata.productId = "p2"\<close>.
  And when \<^verbatim>\<open>onSuccess\<close> throws, the handler is left before it closes the popup:
  window 7 stays open.
\<close>

theorem success_productId_counterexample:
  "productId (features paying 0) = JStr ''p1''
   \<and> calls (snd (Client_handleMessage paying (success_from ''https://pay.example'' ''p2'')))
       = [(0, OnSuccess (successResult (payment ''p2'')))]
   \<and> member (member (successResult (payment ''p2'')) ''metadata'') ''productId'' = JStr ''p2''
   \<and> member (member (successResult (payment ''p2'')) ''metadata'') ''productId''
       \<noteq> productId (features paying 0)
   \<and> popup (features hasty 0) = Some 7
   \<and> fst (Button_handleMessage hasty 0 (success_from ''https://pay.example'' ''p1''))
       = Some CallbackThrew
   \<and> calls (snd (Button_handleMessage hasty 0 (success_from ''https://pay.example'' ''p1'')))
       = [(0, OnSuccess (successResult (payment ''p1'')))]
   \<and> \<not> closed (snd (Button_handleMessage hasty 0 (success_from ''https://pay.example'' ''p1''))) 7"
  by (simp add: examples ops successResult_def)

subsection \<open>Destroying a Feature whose popup is polled\<close>




subsection \<open>Delivery to the registered Features\<close>

text \<open>
  Claim C5, as the code has it. A trusted message is delivered to the registered
  Features in insertion order. When no delivery throws, every registered Feature has
  received it. A delivery that throws ends the loop: the exception leaves
  \<^verbatim>\<open>handleMessage\<close> and the Features after the throwing one do not receive the
  message.
\<close>

theorem dispatch_stops_at_first_throw:
  assumes "ev_origin m = popupOrigin w"
  shows "(fst (Client_handleMessage w m) = None \<longrightarrow>
            snd (Client_handleMessage w m) = deliver_all w (activeFeatures w) m)
         \<and> (activeFeatures w = pre @ fid # post
              \<and> fst (dispatch w pre m) = None
              \<and> fst (Button_handleMessage (deliver_all w pre m) fid m) = Some e \<longrightarrow>
            Client_handleMessage w m = Button_handleMessage (deliver_all w pre m) fid m)"
proof (intro conjI impI)
  assume "fst (Client_handleMessage w m) = None"
  with assms show "snd (Client_handleMessage w m) = deliver_all w (activeFeatures w) m"
    by (simp add: Client_handleMessage_def dispatch_returns)
next
  assume a: "activeFeatures w = pre @ fid # post
              \<and> fst (dispatch w pre m) = None
              \<and> fst (Button_handleMessage (deliver_all w pre m) fid m) = Some e"
  then have p: "dispatch w pre m = (None, deliver_all w pre m)"
    using dispatch_returns [of w pre m] by (cases "dispatch w pre m") simp
  obtain w' where b: "Button_handleMessage (deliver_all w pre m) fid m = (Some e, w')"
    using a by (cases "Button_handleMessage (deliver_all w pre m) fid m") simp
  show "Client_handleMessage w m = Button_handleMessage (deliver_all w pre m) fid m"
    using assms a p b by (simp add: Client_handleMessage_def dispatch_append andThen_def)
qed

text \<open>
  An instance: a close message reaches both buttons; a loaded message reaches the
  first button only, whose \<^verbatim>\<open>onLoaded\<close> throws.
\<close>

theorem dispatch_stops_at_first_throw_witness:
  "ev_origin (plain_from ''https://pay.example'' ''GALLIUN_CLOSE'') = popupOrigin two_buttons
   \<and> activeFeatures two_buttons = [] @ 0 # [1]
   \<and> fst (Client_handleMessage two_buttons (plain_from ''https://pay.example'' ''GALLIUN_CLOSE''))
       = None
   \<and> calls (deliver_all two_buttons (activeFeatures two_buttons)
              (plain_from ''https://pay.example'' ''GALLIUN_CLOSE''))
       = [(0, OnClose), (1, OnClose)]
   \<and> calls (snd (Client_handleMessage two_buttons
              (plain_from ''https://pay.example'' ''GALLIUN_CLOSE'')))
       = [(0, OnClose), (1, OnClose)]
   \<and> fst (Button_handleMessage two_buttons 0 (plain_from ''https://pay.example'' ''GALLIUN_LOADED''))
       = Some CallbackThrew
   \<and> Client_handleMessage two_buttons (plain_from ''https://pay.example'' ''GALLIUN_LOADED'')
       = Button_handleMessage two_buttons 0 (plain_from ''https://pay.example'' ''GALLIUN_LOADED'')"
  using dispatch_stops_at_first_throw [of "plain_from ''https://pay.example'' ''GALLIUN_CLOSE''"
      two_buttons "[]" 0 "[1]" CallbackThrew]
    dispatch_stops_at_first_throw [of "plain_from ''https://pay.example'' ''GALLIUN_LOADED''"
      two_buttons "[]" 0 "[1]" CallbackThrew]
  by (simp add: examples ops deliver_all_def)

text \<open>
  The claim as written fails: the second button is registered and its \<^verbatim>\<open>onLoaded\<close>
  would be called by a delivery of its own, but the throw of the first button's
  callback keeps the message from it.
\<close>

theorem delivery_not_isolated_counterexample:
  "activeFeatures two_buttons = [0, 1]
   \<and> Client_handleMessage two_buttons (plain_from ''https://pay.example'' ''GALLIUN_LOADED'')
       = (Some CallbackThrew, two_buttons\<lparr>calls := [(0, OnLoaded)]\<rparr>)
   \<and> calls (snd (Button_handleMessage two_buttons 1
              (plain_from ''https://pay.example'' ''GALLIUN_LOADED''))) = [(1, OnLoaded)]"
  by (simp add: examples ops)

subsection \<open>Mounting without a product id\<close>

text \<open>
  Claim C6. \<^verbatim>\<open>mount\<close> with the container present and a missing (falsy)
  \<^verbatim>\<open>productId\<close> calls \<^verbatim>\<open>onError\<close>, when the options have one, once with an error of
  type \<^verbatim>\<open>validation_error\<close> and code \<^verbatim>\<open>parameter_missing\<close>; it opens no window,
  starts no timer and renders no button. The Feature is registered all the same, and
  \<^verbatim>\<open>destroy\<close> afterwards returns normally and removes it.
\<close>

theorem mount_without_productId:
  assumes "document w (elementId (features w fid)) = Some container"
      and "\<not> truthy (opt_productId opts)"
  shows "calls (snd (mount w fid opts)) =
           calls w @
           (case opt_onError opts of
              None \<Rightarrow> []
            | Some cb \<Rightarrow>
                [(fid, OnError (JObj
                   [(''type'', JStr ''validation_error''),
                    (''code'', JStr ''parameter_missing''),
                    (''message'', JStr ''Product ID is required''),
                    (''param'', JStr ''productId''),
                    (''metadata'', JObj [(''productId'', productId (features w fid)),
                                         (''timestamp'', JNum (now w))])]))])
         \<and> opened (snd (mount w fid opts)) = opened w
         \<and> timers (snd (mount w fid opts)) = timers w
         \<and> document (snd (mount w fid opts)) = document w
         \<and> fid \<in> set (activeFeatures (snd (mount w fid opts)))
         \<and> fst (Button_destroy (snd (mount w fid opts)) fid) = None
         \<and> fid \<notin> set (activeFeatures (snd (Button_destroy (snd (mount w fid opts)) fid)))"
proof -
  define w1 where "w1 = registerFeature (store_callbacks w fid opts) fid"
  have m: "mount w fid opts = handleError w1 fid parameter_missing"
    using mount_missing_productId [OF assms] by (simp add: w1_def)
  have w1: "calls w1 = calls w" "opened w1 = opened w" "timers w1 = timers w"
    "document w1 = document w" "fid \<in> set (activeFeatures w1)" "now w1 = now w"
    "onError (callbacks (features w1 fid)) = opt_onError opts"
    "productId (features w1 fid) = productId (features w fid)"
    by (simp_all add: w1_def registerFeature_def store_callbacks_def set_add_def)
  have c: "calls (snd (handleError w1 fid parameter_missing)) =
             calls w @
             (case opt_onError opts of
                None \<Rightarrow> []
              | Some cb \<Rightarrow>
                  [(fid, OnError (JObj
                     [(''type'', JStr ''validation_error''),
                      (''code'', JStr ''parameter_missing''),
                      (''message'', JStr ''Product ID is required''),
                      (''param'', JStr ''productId''),
                      (''metadata'', JObj [(''productId'', productId (features w fid)),
                                           (''timestamp'', JNum (now w))])]))])"
    by (simp add: calls_handleError w1 standardError_parameter_missing split: option.splits)
  have d: "fid \<notin> set (activeFeatures (snd (Button_destroy w' fid)))"
          "fst (Button_destroy w' fid) = None" for w'
    by (simp_all add: Button_destroy_def unregisterFeature_def set_delete_def)
  show ?thesis
    unfolding m using w1 d c by (simp add: handleError_frame)
qed

text \<open>An instance: the new button of the shop is mounted without a product id.\<close>

theorem mount_without_productId_witness:
  "document fresh (elementId (features fresh 0)) = Some None
   \<and> \<not> truthy (opt_productId (all_callbacks JUndefined))
   \<and> calls (snd (mount fresh 0 (all_callbacks JUndefined))) =
       [(0, OnError (JObj
          [(''type'', JStr ''validation_error''),
           (''code'', JStr ''parameter_missing''),
           (''message'', JStr ''Product ID is required''),
           (''param'', JStr ''productId''),
           (''metadata'', JObj [(''productId'', JUndefined), (''timestamp'', JNum 0)])]))]
   \<and> opened (snd (mount fresh 0 (all_callbacks JUndefined))) = []
   \<and> activeFeatures (snd (mount fresh 0 (all_callbacks JUndefined))) = [0]
   \<and> activeFeatures (snd (Button_destroy (snd (mount fresh 0 (all_callbacks JUndefined))) 0)) = []"
  using mount_without_productId [of fresh 0 None "all_callbacks JUndefined"]
  by (simp add: examples ops parameter_missing_def standardError_def)

subsection \<open>The blocked popup\<close>

text \<open>
  Claim C7. When \<^verbatim>\<open>window.open\<close> answers \<^verbatim>\<open>null\<close> or a handle that is already
  closed, \<^verbatim>\<open>openPopup\<close> calls \<^verbatim>\<open>onError\<close>, when the Feature has one, once with an
  error of type \<^verbatim>\<open>popup_error\<close> and code \<^verbatim>\<open>popup_blocked\<close>, and starts no timer.
\<close>

theorem blocked_popup_reports_error:
  assumes "wo = None \<or> wo = Some (h, True)"
  shows "calls (snd (openPopup w fid pid wo)) =
           calls w @
           (case onError (callbacks (features w fid)) of
              None \<Rightarrow> []
            | Some cb \<Rightarrow>
                [(fid, OnError (JObj
                   [(''type'', JStr ''popup_error''),
                    (''code'', JStr ''popup_blocked''),
                    (''message'',
                     JStr ''Payment popup was blocked. Please allow popups for this site.''),
                    (''param'', JUndefined),
                    (''metadata'', JObj [(''productId'', productId (features w fid)),
                                         (''timestamp'', JNum (now w))])]))])
         \<and> timers (snd (openPopup w fid pid wo)) = timers w
         \<and> nextTimer (snd (openPopup w fid pid wo)) = nextTimer w"
proof -
  define w2 where "w2 = window_open (close_if_open w fid) fid pid wo"
  have b: "is_blocked w2 fid"
    using assms by (auto simp: w2_def is_blocked_def window_open_def)
  then have o: "openPopup w fid pid wo = handleError w2 fid popup_blocked"
    by (simp add: openPopup_def Let_def w2_def)
  have t: "timers w2 = timers w" "nextTimer w2 = nextTimer w"
    by (simp_all add: w2_def window_open_def close_if_open_def popup_close_def
        split: option.splits)
  have "is_blocked (snd (openPopup w fid pid wo)) fid"
    using b by (simp add: is_blocked_openPopup w2_def)
  then have "calls (snd (openPopup w fid pid wo)) =
     calls w @ (case onError (callbacks (features w fid)) of
           None \<Rightarrow> []
         | Some cb \<Rightarrow> [(fid, OnError (standardError popup_blocked (productId (features w fid)) (now w)))])"
    using calls_openPopup [of w fid pid wo] by simp
  then show ?thesis
    by (simp add: o handleError_frame t standardError_popup_blocked split: option.splits)
qed

text \<open>An instance: the browser blocks the popup of the mounted button.\<close>

theorem blocked_popup_reports_error_witness:
  "calls (snd (openPopup mounted 0 (JStr ''p1'') None)) =
     [(0, OnError (JObj
        [(''type'', JStr ''popup_error''),
         (''code'', JStr ''popup_blocked''),
         (''message'', JStr ''Payment popup was blocked. Please allow popups for this site.''),
         (''param'', JUndefined),
         (''metadata'', JObj [(''productId'', JStr ''p1''), (''timestamp'', JNum 0)])]))]
   \<and> timers (snd (openPopup mounted 0 (JStr ''p1'') None)) = []
   \<and> timers (snd (openPopup mounted 0 (JStr ''p1'') (Some (7, True)))) = []
   \<and> timers (snd (openPopup mounted 0 (JStr ''p1'') (Some (7, False)))) = [(0, 0)]"
  using blocked_popup_reports_error [of None 7 mounted 0 "JStr ''p1''"]
    blocked_popup_reports_error [of "Some (7, True)" 7 mounted 0 "JStr ''p1''"]
  by (simp add: examples ops popup_blocked_def standardError_def)

subsection \<open>The registry\<close>

text \<open>
  Claim C8. \<^verbatim>\<open>registerFeature\<close> and \<^verbatim>\<open>unregisterFeature\<close> are idempotent:
  registering a Feature twice gives the page that registering it once gives,
  unregistering a Feature that is not registered changes nothing, unregistering is
  idempotent too, and after registering twice and unregistering once the Feature is
  not in the registry.
\<close>

theorem registry_idempotent:
  "registerFeature (registerFeature w f) f = registerFeature w f
   \<and> (f \<notin> set (activeFeatures w) \<longrightarrow> unregisterFeature w f = w)
   \<and> unregisterFeature (unregisterFeature w f) f = unregisterFeature w f
   \<and> f \<notin> set (activeFeatures (unregisterFeature (registerFeature (registerFeature w f) f) f))"
  by (simp add: registerFeature_def unregisterFeature_def set_add_idem set_delete_absent
      set_delete_removes)

text \<open>An instance on the registry of the shop, which is empty.\<close>

theorem registry_idempotent_witness:
  "(0::nat) \<notin> set (activeFeatures shop)
   \<and> activeFeatures (unregisterFeature shop 0) = activeFeatures shop
   \<and> activeFeatures (registerFeature (registerFeature shop 0) 0) = [0]
   \<and> activeFeatures (unregisterFeature (registerFeature (registerFeature shop 0) 0) 0) = []"
  using registry_idempotent [of shop 0]
  by (simp add: examples ops)

subsection \<open>The product id in the validation error\<close>




subsection \<open>Mounting without a container\<close>

text \<open>
  Claim C10. \<^verbatim>\<open>mount\<close> on a Feature whose container does not exist logs one line and
  returns; nothing else on the page changes: the callbacks are not stored, the Feature
  is not registered, no callback is called and nothing is rendered. If the Feature
  was not registered and holds no open popup, a \<^verbatim>\<open>destroy\<close> afterwards changes
  nothing either.
\<close>

theorem mount_without_container:
  assumes "document w (elementId (features w fid)) = None"
  shows "mount w fid opts =
           (None, w\<lparr>console := console w @ [not_found (elementId (features w fid))]\<rparr>)
         \<and> callbacks (features (snd (mount w fid opts)) fid) = callbacks (features w fid)
         \<and> activeFeatures (snd (mount w fid opts)) = activeFeatures w
         \<and> calls (snd (mount w fid opts)) = calls w
         \<and> document (snd (mount w fid opts)) = document w
         \<and> (fid \<notin> set (activeFeatures w)
              \<and> (\<forall>h. popup (features w fid) = Some h \<longrightarrow> closed w h) \<longrightarrow>
            Button_destroy (snd (mount w fid opts)) fid = (None, snd (mount w fid opts)))"
proof -
  have m: "mount w fid opts =
           (None, w\<lparr>console := console w @ [not_found (elementId (features w fid))]\<rparr>)"
    using assms by (simp add: mount_def)
  have "Button_destroy (snd (mount w fid opts)) fid = (None, snd (mount w fid opts))"
    if "fid \<notin> set (activeFeatures w)" and "\<forall>h. popup (features w fid) = Some h \<longrightarrow> closed w h"
  proof -
    have "set_delete fid (activeFeatures w) = activeFeatures w"
      using that(1) by (auto simp: set_delete_def filter_id_conv)
    then show ?thesis
      using that(2)
      by (simp add: m Button_destroy_def unregisterFeature_def close_if_open_def
          split: option.splits)
  qed
  with m show ?thesis by simp
qed

text \<open>An instance: the button made for a container the shop does not have.\<close>

theorem mount_without_container_witness:
  "document astray (elementId (features astray 0)) = None
   \<and> 0 \<notin> set (activeFeatures astray)
   \<and> popup (features astray 0) = None
   \<and> console (snd (mount astray 0 (all_callbacks (JStr ''p1''))))
       = [''Element with id \"nowhere\" not found'']
   \<and> onError (callbacks (features (snd (mount astray 0 (all_callbacks (JStr ''p1'')))) 0)) = None
   \<and> activeFeatures (snd (mount astray 0 (all_callbacks (JStr ''p1'')))) = []
   \<and> calls (snd (mount astray 0 (all_callbacks (JStr ''p1'')))) = []
   \<and> snd (Button_destroy (snd (mount astray 0 (all_callbacks (JStr ''p1'')))) 0)
       = snd (mount astray 0 (all_callbacks (JStr ''p1'')))"
  using mount_without_container [of astray 0 "all_callbacks (JStr ''p1'')"]
  by (simp add: examples ops not_found_def)

end
